theory Spec2Isabelle
  imports Main "HOL-Library.Sublist"
begin

section \<open>Strings and character classes\<close>

text \<open>
  A JavaScript string is modelled as a \<^typ>\<open>string\<close>: one \<^typ>\<open>char\<close> per UTF-16 code
  unit, read as the code point of the same number.  The model therefore covers the subject
  lines whose code points lie in U+0000..U+00FF (ASCII and the Latin-1 supplement, which
  holds the German umlauts and the sharp s).
\<close>

definition code :: "char \<Rightarrow> nat" where
  "code c = of_char c"

text \<open>The class \<^verbatim>\<open>\d\<close>.\<close>

definition isDigit :: "char \<Rightarrow> bool" where
  "isDigit c = (48 \<le> code c \<and> code c \<le> 57)"

text \<open>The class \<^verbatim>\<open>\s\<close> (white space and line terminators), which is also what
  \<^verbatim>\<open>String.prototype.trim\<close> removes: TAB, LF, VT, FF, CR, SPACE and NBSP.\<close>

definition isSpace :: "char \<Rightarrow> bool" where
  "isSpace c = (code c \<in> {9, 10, 11, 12, 13, 32, 160})"

text \<open>The class \<^verbatim>\<open>\w\<close>, which decides \<^verbatim>\<open>\b\<close>: ASCII letters, digits and the underscore.\<close>

definition isWordChar :: "char \<Rightarrow> bool" where
  "isWordChar c =
     ((48 \<le> code c \<and> code c \<le> 57) \<or> (65 \<le> code c \<and> code c \<le> 90) \<or>
      code c = 95 \<or> (97 \<le> code c \<and> code c \<le> 122))"

text \<open>The class \<^verbatim>\<open>\p{L}\<close> on U+0000..U+00FF: the ASCII letters, the ordinal indicators
  and the micro sign, and the accented letters (without the multiplication and division
  signs).\<close>

definition isLetter :: "char \<Rightarrow> bool" where
  "isLetter c =
     ((65 \<le> code c \<and> code c \<le> 90) \<or> (97 \<le> code c \<and> code c \<le> 122) \<or>
      code c = 170 \<or> code c = 181 \<or> code c = 186 \<or>
      (192 \<le> code c \<and> code c \<le> 214) \<or> (216 \<le> code c \<and> code c \<le> 246) \<or>
      (248 \<le> code c \<and> code c \<le> 255))"

text \<open>Canonicalisation of a character under the flag \<^verbatim>\<open>i\<close> (without \<^verbatim>\<open>u\<close>): the code of
  the upper case of the character when that is a single code unit.  The sharp s (223), the
  micro sign (181) and y with diaeresis (255) have no upper case inside this range and
  stay.\<close>

definition canon :: "char \<Rightarrow> nat" where
  "canon c =
     (if (97 \<le> code c \<and> code c \<le> 122) \<or> (224 \<le> code c \<and> code c \<le> 254 \<and> code c \<noteq> 247)
      then code c - 32 else code c)"

section \<open>A backtracking matcher for the regular expressions of the source\<close>

datatype regex =
    Cls "char \<Rightarrow> bool"
  | Eps
  | Seq regex regex
  | Alt regex regex
  | Star bool regex
  | Grp nat regex
  | WordB
  | Bol
  | Eol
  | NotAhead regex

text \<open>
  A matcher state: the text before the current position (nearest character first), the
  text from the current position on, and the capture groups set so far.
\<close>

type_synonym mstate = "string \<times> string \<times> (nat \<rightharpoonup> string)"

definition remaining :: "mstate \<Rightarrow> string" where
  "remaining st = fst (snd st)"

text \<open>The text consumed between an earlier state and a later one.\<close>

definition consumed :: "mstate \<Rightarrow> mstate \<Rightarrow> string" where
  "consumed st st' = rev (take (length (fst st') - length (fst st)) (fst st'))"

definition set_cap :: "nat \<Rightarrow> mstate \<Rightarrow> mstate \<Rightarrow> mstate" where
  "set_cap k st st' = (fst st', fst (snd st'), (snd (snd st'))(k \<mapsto> consumed st st'))"

fun wordAt :: "string \<Rightarrow> bool" where
  "wordAt [] = False"
| "wordAt (c # cs) = isWordChar c"

text \<open>
  \<open>rmatch r st\<close> lists the states in which a match of \<open>r\<close> started in \<open>st\<close> can end, in the
  order in which a backtracking matcher tries them: the left alternative before the right
  one, a greedy repetition longest first, a lazy one shortest first.  An iteration of a
  repetition that consumes nothing is rejected, as ECMAScript does.
\<close>

function rmatch :: "regex \<Rightarrow> mstate \<Rightarrow> mstate list" where
  "rmatch (Cls p) (b, [], g) = []"
| "rmatch (Cls p) (b, c # cs, g) = (if p c then [(c # b, cs, g)] else [])"
| "rmatch Eps st = [st]"
| "rmatch (Seq r1 r2) st = concat (map (rmatch r2) (rmatch r1 st))"
| "rmatch (Alt r1 r2) st = rmatch r1 st @ rmatch r2 st"
| "rmatch (Star greedy r) st =
     (let more = concat (map (\<lambda>st'. if length (remaining st') < length (remaining st)
                                      then rmatch (Star greedy r) st' else [])
                             (rmatch r st))
      in if greedy then more @ [st] else st # more)"
| "rmatch (Grp k r) st = map (set_cap k st) (rmatch r st)"
| "rmatch WordB (b, cs, g) = (if wordAt b \<noteq> wordAt cs then [(b, cs, g)] else [])"
| "rmatch Bol (b, cs, g) = (if b = [] then [(b, cs, g)] else [])"
| "rmatch Eol (b, cs, g) = (if cs = [] then [(b, cs, g)] else [])"
| "rmatch (NotAhead r) st = (if rmatch r st = [] then [st] else [])"
  by pat_completeness auto
termination
  by (relation "measures [\<lambda>(r, st). size r, \<lambda>(r, st). length (remaining st)]") auto


declare rmatch.simps(6) [simp del]

text \<open>
  The first match of \<open>r\<close> in a text, trying the start positions from left to right
  (\<^verbatim>\<open>RegExp.prototype.exec\<close> without the flags \<^verbatim>\<open>g\<close> and \<^verbatim>\<open>y\<close>).  The result keeps the
  text before the match, the groups, and the text after the match.
\<close>

record rmatch_result =
  pre :: string
  groups :: "nat \<rightharpoonup> string"
  post :: string

fun rsearch :: "regex \<Rightarrow> string \<Rightarrow> string \<Rightarrow> rmatch_result option" where
  "rsearch r b [] =
     (case rmatch r (b, [], Map.empty) of
        [] \<Rightarrow> None
      | st # _ \<Rightarrow> Some \<lparr>pre = rev b, groups = snd (snd st), post = remaining st\<rparr>)"
| "rsearch r b (c # cs) =
     (case rmatch r (b, c # cs, Map.empty) of
        [] \<Rightarrow> rsearch r (c # b) cs
      | st # _ \<Rightarrow> Some \<lparr>pre = rev b, groups = snd (snd st), post = remaining st\<rparr>)"

text \<open>\<^verbatim>\<open>s.match(r)\<close> for a regular expression without the flag \<^verbatim>\<open>g\<close>: the groups of
  the first match, or null.\<close>

definition js_match :: "regex \<Rightarrow> string \<Rightarrow> (nat \<rightharpoonup> string) option" where
  "js_match r s = map_option groups (rsearch r [] s)"

text \<open>\<^verbatim>\<open>r.test(s)\<close>.\<close>

definition js_test :: "regex \<Rightarrow> string \<Rightarrow> bool" where
  "js_test r s = (rsearch r [] s \<noteq> None)"

text \<open>\<^verbatim>\<open>s.replace(r, t)\<close> for a regular expression without the flag \<^verbatim>\<open>g\<close> and a
  replacement text without \<^verbatim>\<open>$\<close>: the first match is replaced.\<close>

definition js_replace :: "regex \<Rightarrow> string \<Rightarrow> string \<Rightarrow> string" where
  "js_replace r t s =
     (case rsearch r [] s of None \<Rightarrow> s | Some m \<Rightarrow> pre m @ t @ post m)"

text \<open>\<^verbatim>\<open>s.replace(/\s+/g, " ")\<close>: every maximal run of white space becomes one space.\<close>

function collapse_ws :: "string \<Rightarrow> string" where
  "collapse_ws [] = []"
| "collapse_ws (c # cs) =
     (if isSpace c then CHR '' '' # collapse_ws (dropWhile isSpace cs)
      else c # collapse_ws cs)"
  by pat_completeness auto
termination
  by (relation "measure length") (auto simp: length_dropWhile_le less_Suc_eq_le)

text \<open>\<^verbatim>\<open>s.trim()\<close>.\<close>

definition trim :: "string \<Rightarrow> string" where
  "trim s = rev (dropWhile isSpace (rev (dropWhile isSpace s)))"

text \<open>\<^verbatim>\<open>String(n).padStart(2, "0")\<close> on a text.\<close>

definition z2 :: "string \<Rightarrow> string" where
  "z2 n = replicate (2 - length n) (CHR ''0'') @ n"

text \<open>The decimal numeral of a natural number, as a template literal prints it.\<close>

fun dec :: "nat \<Rightarrow> string" where
  "dec n = (if n < 10 then [''0123456789'' ! n]
            else dec (n div 10) @ [''0123456789'' ! (n mod 10)])"

declare dec.simps [simp del]

text \<open>A group of a match as a template literal prints it: a group that did not take part
  is \<^verbatim>\<open>undefined\<close>.\<close>

definition grp :: "(nat \<rightharpoonup> string) \<Rightarrow> nat \<Rightarrow> string" where
  "grp m k = (case m k of None \<Rightarrow> ''undefined'' | Some v \<Rightarrow> v)"

text \<open>Truthiness of a value that is null, undefined or a text: a text is falsy when empty.\<close>

fun falsy :: "string option \<Rightarrow> bool" where
  "falsy None = True"
| "falsy (Some v) = (v = [])"

subsection \<open>Building blocks of the patterns\<close>

definition lit :: "char \<Rightarrow> regex" where
  "lit c = Cls (\<lambda>x. x = c)"

text \<open>A literal character under the flag \<^verbatim>\<open>i\<close>.\<close>

definition liti :: "char \<Rightarrow> regex" where
  "liti c = Cls (\<lambda>x. canon x = canon c)"

fun lits :: "string \<Rightarrow> regex" where
  "lits [] = Eps"
| "lits (c # cs) = Seq (lit c) (lits cs)"

fun litsi :: "string \<Rightarrow> regex" where
  "litsi [] = Eps"
| "litsi (c # cs) = Seq (liti c) (litsi cs)"

fun seqs :: "regex list \<Rightarrow> regex" where
  "seqs [] = Eps"
| "seqs (r # rs) = Seq r (seqs rs)"

text \<open>\<^verbatim>\<open>r?\<close>, \<^verbatim>\<open>r+\<close> and \<^verbatim>\<open>r+?\<close>.\<close>

definition Opt :: "regex \<Rightarrow> regex" where
  "Opt r = Alt r Eps"

definition Plus :: "regex \<Rightarrow> regex" where
  "Plus r = Seq r (Star True r)"

definition PlusLazy :: "regex \<Rightarrow> regex" where
  "PlusLazy r = Seq r (Star False r)"

definition digit :: regex where
  "digit = Cls isDigit"

definition space :: regex where
  "space = Cls isSpace"

text \<open>\<^verbatim>\<open>\d{1,2}\<close>, \<^verbatim>\<open>\d{2}\<close>, \<^verbatim>\<open>\d{4}\<close> and \<^verbatim>\<open>\d{5}\<close>.\<close>

definition d12 :: regex where
  "d12 = Seq digit (Opt digit)"

definition d2 :: regex where
  "d2 = Seq digit digit"

definition d4 :: regex where
  "d4 = Seq digit (Seq digit (Seq digit digit))"

definition d5 :: regex where
  "d5 = Seq digit (Seq digit (Seq digit (Seq digit digit)))"


section \<open>The subject parser of the watcher (email-watcher-smtp-new.js)\<close>

record job_record =
  date :: string
  time :: string
  zip_code :: string
  city :: string

text \<open>\<^verbatim>\<open>/registrierung|registration|verify|best[\<dots>a]tig/i\<close>, where the class holds a with
  diaeresis (228) and a.\<close>

definition re_nonjob :: regex where
  "re_nonjob =
     Alt (litsi ''registrierung'')
       (Alt (litsi ''registration'')
         (Alt (litsi ''verify'')
           (seqs [litsi ''best'', Cls (\<lambda>x. canon x = canon (CHR 0xE4) \<or> canon x = canon (CHR ''a'')),
                  litsi ''tig''])))"

text \<open>\<^verbatim>\<open>/\bmorgen,?\s*/i\<close>\<close>

definition re_morgen :: regex where
  "re_morgen = seqs [WordB, litsi ''morgen'', Opt (liti (CHR '','')), Star True space]"

text \<open>\<^verbatim>\<open>/\b(\d{1,2})\.(\d{1,2})\.(\d{4})\b/\<close>\<close>

definition re_date_full :: regex where
  "re_date_full =
     seqs [WordB, Grp 1 d12, lit (CHR ''.''), Grp 2 d12, lit (CHR ''.''), Grp 3 d4, WordB]"

text \<open>\<^verbatim>\<open>/\b(\d{1,2})\.(\d{1,2})\.?\b/\<close>\<close>

definition re_date_short :: regex where
  "re_date_short =
     seqs [WordB, Grp 1 d12, lit (CHR ''.''), Grp 2 d12, Opt (lit (CHR ''.'')), WordB]"

text \<open>\<^verbatim>\<open>(?:um|ab)\<close> under the flag \<^verbatim>\<open>i\<close>.\<close>

definition um_ab :: regex where
  "um_ab = Alt (litsi ''um'') (litsi ''ab'')"

text \<open>\<^verbatim>\<open>/\b(?:um|ab)\s+(\d{1,2}):(\d{2})\b/i\<close>\<close>

definition re_time_colon :: regex where
  "re_time_colon =
     seqs [WordB, um_ab, Plus space, Grp 1 d12, lit (CHR '':''), Grp 2 d2, WordB]"

text \<open>\<^verbatim>\<open>/\b(?:um|ab)\s+(\d{1,2})\.(\d{2})(?!\.)\b/i\<close>\<close>

definition re_time_dot :: regex where
  "re_time_dot =
     seqs [WordB, um_ab, Plus space, Grp 1 d12, lit (CHR ''.''), Grp 2 d2,
           NotAhead (lit (CHR ''.'')), WordB]"

text \<open>\<^verbatim>\<open>/\b(?:um|ab)\s+(\d{1,2})(?:\s*Uhr)?\b/i\<close>\<close>

definition re_time_hour :: regex where
  "re_time_hour =
     seqs [WordB, um_ab, Plus space, Grp 1 d12, Opt (Seq (Star True space) (litsi ''Uhr'')),
           WordB]"

text \<open>\<^verbatim>\<open>(^|[^0-9.])\<close>\<close>

definition not_after_date :: regex where
  "not_after_date = Alt Bol (Cls (\<lambda>x. \<not> isDigit x \<and> x \<noteq> CHR ''.''))"

text \<open>\<^verbatim>\<open>/(^|[^0-9.])(\d{1,2}):(\d{2})\b/\<close>\<close>

definition re_time_bare_colon :: regex where
  "re_time_bare_colon =
     seqs [Grp 1 not_after_date, Grp 2 d12, lit (CHR '':''), Grp 3 d2, WordB]"

text \<open>\<^verbatim>\<open>/(^|[^0-9.])(\d{1,2})\.(\d{2})\b(?!\.)/\<close>\<close>

definition re_time_bare_dot :: regex where
  "re_time_bare_dot =
     seqs [Grp 1 not_after_date, Grp 2 d12, lit (CHR ''.''), Grp 3 d2, WordB,
           NotAhead (lit (CHR ''.''))]"

text \<open>The class \<^verbatim>\<open>[\p{L}\-.'()\/\s]\<close>.\<close>

definition cityChar :: "char \<Rightarrow> bool" where
  "cityChar c =
     (isLetter c \<or> c = CHR ''-'' \<or> c = CHR ''.'' \<or> c = CHR 0x27 \<or> c = CHR ''('' \<or>
      c = CHR '')'' \<or> c = CHR ''/'' \<or> isSpace c)"

text \<open>\<^verbatim>\<open>(?:\s+gesucht\b|$)\<close>\<close>

definition loc_end :: regex where
  "loc_end = Alt (seqs [Plus space, lits ''gesucht'', WordB]) Eol"

text \<open>\<^verbatim>\<open>/\b(\d{5})\s+([\p{L}\-.'()\/\s]+?)(?:\s+gesucht\b|$)/u\<close>\<close>

definition re_loc :: regex where
  "re_loc = seqs [WordB, Grp 1 d5, Plus space, Grp 2 (PlusLazy (Cls cityChar)), loc_end]"

text \<open>The block DATE: the date with its year, or else day and month with the year of the
  clock (\<^verbatim>\<open>new Date().getFullYear()\<close>, here the argument \<open>nowYear\<close>).\<close>

definition parse_date :: "string \<Rightarrow> nat \<Rightarrow> string option" where
  "parse_date s nowYear =
     (case js_match re_date_full s of
        Some m \<Rightarrow> Some (z2 (grp m 1) @ ''.'' @ z2 (grp m 2) @ ''.'' @ grp m 3)
      | None \<Rightarrow>
          (case js_match re_date_short s of
             None \<Rightarrow> None
           | Some m \<Rightarrow> Some (z2 (grp m 1) @ ''.'' @ z2 (grp m 2) @ ''.'' @ dec nowYear)))"

text \<open>The block TIME: the variables \<^verbatim>\<open>hh\<close> and \<^verbatim>\<open>mm\<close> after the five attempts, each
  made only while \<^verbatim>\<open>hh\<close> is still falsy.\<close>

definition parse_time :: "string \<Rightarrow> string option \<times> string option" where
  "parse_time s =
     (let hm = (case js_match re_time_colon s of
                  Some m \<Rightarrow> (m 1, m 2)
                | None \<Rightarrow> (None, None));
          hm = (if falsy (fst hm) then
                  (case js_match re_time_dot s of Some m \<Rightarrow> (m 1, m 2) | None \<Rightarrow> hm)
                else hm);
          hm = (if falsy (fst hm) then
                  (case js_match re_time_hour s of Some m \<Rightarrow> (m 1, Some ''00'') | None \<Rightarrow> hm)
                else hm);
          hm = (if falsy (fst hm) then
                  (case js_match re_time_bare_colon s of Some m \<Rightarrow> (m 2, m 3) | None \<Rightarrow> hm)
                else hm);
          hm = (if falsy (fst hm) then
                  (case js_match re_time_bare_dot s of Some m \<Rightarrow> (m 2, m 3) | None \<Rightarrow> hm)
                else hm)
      in hm)"

text \<open>A value that is undefined, null or a text, as a template literal or \<^verbatim>\<open>String\<close>
  prints it.\<close>

definition str :: "string option \<Rightarrow> string" where
  "str v = (case v of None \<Rightarrow> ''undefined'' | Some t \<Rightarrow> t)"

text \<open>
  \<^verbatim>\<open>parseJobDetailsFromSubject(subject, internalDate = new Date())\<close>.  The result
  \<open>None\<close> is \<^verbatim>\<open>null\<close>.  The second argument is the received time of the message; the
  third is the year of the clock at the moment of the call.
\<close>

definition parseJobDetailsFromSubject :: "string \<Rightarrow> int \<Rightarrow> nat \<Rightarrow> job_record option" where
  "parseJobDetailsFromSubject subject internalDate nowYear =
     (if subject = [] then None
      else
        let s = trim (collapse_ws subject) in
        if js_test re_nonjob s then None
        else
          let s = js_replace re_morgen [] s in
          case parse_date s nowYear of
            None \<Rightarrow> None
          | Some dateStr \<Rightarrow>
              let (hh, mm) = parse_time s in
              if falsy hh then None
              else
                let timeStr = z2 (str hh) @ '':'' @ (if falsy mm then ''00'' else str mm) in
                case js_match re_loc s of
                  None \<Rightarrow> None
                | Some loc \<Rightarrow>
                    Some \<lparr>date = dateStr, time = timeStr, zip_code = grp loc 1,
                          city = trim (collapse_ws (grp loc 2))\<rparr>)"


section \<open>The subject parser of the retrying watcher (unnamed part 2)\<close>

text \<open>The class \<^verbatim>\<open>[A-Z\<dots>a-z\<dots>\-\.\s]\<close> under the flag \<^verbatim>\<open>i\<close>: the ASCII letters, the
  three umlauts in both cases (196, 214, 220 and 228, 246, 252), the sharp s (223), hyphen,
  dot and white space.\<close>

definition cityCharDe :: "char \<Rightarrow> bool" where
  "cityCharDe c =
     ((65 \<le> canon c \<and> canon c \<le> 90) \<or> canon c = 196 \<or> canon c = 214 \<or> canon c = 220 \<or>
      canon c = 223 \<or> c = CHR ''-'' \<or> c = CHR ''.'' \<or> isSpace c)"

text \<open>\<^verbatim>\<open>/(\d+)\s+Umzugshelfer\s+am\s+(\d{1,2}\.\d{1,2}\.\d{4})\s+ab\s+(\d{1,2}:\d{2})\s+Uhr\s+in\s+(\d{5})\s+([\<dots>]+?)\s+gesucht/i\<close>\<close>

definition subjectPattern :: regex where
  "subjectPattern =
     seqs [Grp 1 (Plus digit), Plus space, litsi ''Umzugshelfer'', Plus space, litsi ''am'',
           Plus space, Grp 2 (seqs [d12, lit (CHR ''.''), d12, lit (CHR ''.''), d4]),
           Plus space, litsi ''ab'', Plus space, Grp 3 (seqs [d12, lit (CHR '':''), d2]),
           Plus space, litsi ''Uhr'', Plus space, litsi ''in'', Plus space, Grp 4 d5,
           Plus space, Grp 5 (PlusLazy (Cls cityCharDe)), Plus space, litsi ''gesucht'']"

text \<open>\<^verbatim>\<open>/\s+(gesucht|neu|wartend|new)$/i\<close>\<close>

definition re_trailing_word :: regex where
  "re_trailing_word =
     seqs [Plus space,
           Grp 1 (Alt (litsi ''gesucht'') (Alt (litsi ''neu'') (Alt (litsi ''wartend'') (litsi ''new'')))),
           Eol]"

text \<open>\<^verbatim>\<open>/[.,!?]+$/\<close>\<close>

definition re_trailing_punct :: regex where
  "re_trailing_punct =
     seqs [Plus (Cls (\<lambda>x. x = CHR ''.'' \<or> x = CHR '','' \<or> x = CHR ''!'' \<or> x = CHR ''?'')), Eol]"

text \<open>\<^verbatim>\<open>s.split(":")\<close>\<close>

fun split_colon :: "string \<Rightarrow> string list" where
  "split_colon [] = [] # []"
| "split_colon (c # cs) =
     (if c = CHR '':'' then [] # split_colon cs
      else (case split_colon cs of [] \<Rightarrow> [c] # [] | p # ps \<Rightarrow> (c # p) # ps))"

text \<open>\<^verbatim>\<open>parseJobDetailsFromText(text)\<close>\<close>

definition parseJobDetailsFromText :: "string \<Rightarrow> job_record option" where
  "parseJobDetailsFromText txt =
     (if txt = [] then None
      else
        let cleanText = trim (collapse_ws txt) in
        case js_match subjectPattern cleanText of
          None \<Rightarrow> None
        | Some subjectMatch \<Rightarrow>
            let date' = grp subjectMatch 2;
                time' = grp subjectMatch 3;
                zip' = grp subjectMatch 4;
                city' = trim (grp subjectMatch 5);
                timeParts = split_colon time';
                formattedTime =
                  (if length timeParts = 2
                   then z2 (timeParts ! 0) @ '':'' @ timeParts ! 1 else time');
                cleanCity = trim (js_replace re_trailing_punct [] (js_replace re_trailing_word [] city'))
            in Some \<lparr>date = date', time = formattedTime, zip_code = zip', city = cleanCity\<rparr>)"

section \<open>The set of processed jobs\<close>

text \<open>A JavaScript \<^verbatim>\<open>Set\<close> of texts keeps its elements in insertion order: a list without
  repetition.  \<^verbatim>\<open>add\<close> appends a new element and leaves the set alone otherwise.\<close>

definition set_add :: "string \<Rightarrow> string list \<Rightarrow> string list" where
  "set_add k xs = (if k \<in> set xs then xs else xs @ [k])"

text \<open>\<^verbatim>\<open>xs.slice(-n)\<close>\<close>

definition slice_last :: "nat \<Rightarrow> 'a list \<Rightarrow> 'a list" where
  "slice_last n xs = drop (length xs - n) xs"

definition isJobAlreadyProcessed :: "string \<Rightarrow> string list \<Rightarrow> bool" where
  "isJobAlreadyProcessed jobKey processedJobs = (jobKey \<in> set processedJobs)"

definition markJobAsProcessed :: "string \<Rightarrow> string list \<Rightarrow> string list" where
  "markJobAsProcessed jobKey processedJobs =
     (let processedJobs = set_add jobKey processedJobs in
      if length processedJobs > 1000 then
        (let jobsArray = processedJobs in fold set_add (slice_last 500 jobsArray) [])
      else processedJobs)"

section \<open>Notifications\<close>

datatype js_error = Error string

datatype mail =
    SuccessMail "string list" nat
  | ErrorMail js_error "string list"
  | TestMail

text \<open>
  The transporter is null or an object whose \<^verbatim>\<open>sendMail\<close> resolves (\<open>None\<close>) or
  rejects with an error.  A notification returns normally or throws, and leaves behind the
  mails handed to \<^verbatim>\<open>sendMail\<close> and the lines written to the console (here without
  their pictographs and without the error object that follows a failure line).
\<close>

record notification =
  outcome :: "js_error + unit"
  sent :: "mail list"
  logged :: "string list"

definition sendSuccessNotification ::
    "(mail \<Rightarrow> js_error option) option \<Rightarrow> string list \<Rightarrow> nat \<Rightarrow> notification" where
  "sendSuccessNotification transporter successfulJobs responseTime =
     (case transporter of
        None \<Rightarrow> \<lparr>outcome = Inr (), sent = [], logged = []\<rparr>
      | Some sendMail \<Rightarrow>
          (case sendMail (SuccessMail successfulJobs responseTime) of
             None \<Rightarrow> \<lparr>outcome = Inr (), sent = [SuccessMail successfulJobs responseTime],
                      logged = [''Success notification sent'']\<rparr>
           | Some e \<Rightarrow> \<lparr>outcome = Inr (), sent = [SuccessMail successfulJobs responseTime],
                        logged = [''Failed to send success notification:'']\<rparr>))"

definition sendErrorNotification ::
    "(mail \<Rightarrow> js_error option) option \<Rightarrow> js_error \<Rightarrow> string list \<Rightarrow> notification" where
  "sendErrorNotification transporter err jobIds =
     (case transporter of
        None \<Rightarrow> \<lparr>outcome = Inr (), sent = [], logged = []\<rparr>
      | Some sendMail \<Rightarrow>
          (case sendMail (ErrorMail err jobIds) of
             None \<Rightarrow> \<lparr>outcome = Inr (), sent = [ErrorMail err jobIds],
                      logged = [''Error notification sent'']\<rparr>
           | Some e \<Rightarrow> \<lparr>outcome = Inr (), sent = [ErrorMail err jobIds],
                        logged = [''Failed to send error notification:'']\<rparr>))"

definition sendTestEmail :: "(mail \<Rightarrow> js_error option) option \<Rightarrow> notification" where
  "sendTestEmail transporter =
     (case transporter of
        None \<Rightarrow> \<lparr>outcome = Inl (Error ''SMTP transporter not initialized''), sent = [], logged = []\<rparr>
      | Some sendMail \<Rightarrow>
          (case sendMail TestMail of
             None \<Rightarrow> \<lparr>outcome = Inr (), sent = [TestMail],
                      logged = [''Test email sent successfully'']\<rparr>
           | Some e \<Rightarrow> \<lparr>outcome = Inl e, sent = [TestMail], logged = []\<rparr>))"

section \<open>Processing a batch of job ids (automator-simple.js)\<close>

record job_results =
  successful :: "string list"
  failed :: "string list"

text \<open>
  \<^verbatim>\<open>applyToJob\<close> drives the browser: it takes the state of the browser and returns the
  new state with \<^verbatim>\<open>true\<close>, \<^verbatim>\<open>false\<close> or a thrown error.  The loop of \<^verbatim>\<open>processJobs\<close>
  threads that state through the ids.
\<close>

fun processJobs_loop ::
    "('w \<Rightarrow> string \<Rightarrow> (js_error + bool) \<times> 'w) \<Rightarrow> string list \<Rightarrow> job_results \<times> 'w \<Rightarrow> job_results \<times> 'w" where
  "processJobs_loop applyToJob [] (results, w) = (results, w)"
| "processJobs_loop applyToJob (jobId # jobIds) (results, w) =
     (if jobId = ''TEST123'' \<or> prefix ''TEST'' jobId then
        processJobs_loop applyToJob jobIds (results\<lparr>successful := successful results @ [jobId]\<rparr>, w)
      else
        (case applyToJob w jobId of
           (Inr ok, w') \<Rightarrow>
             processJobs_loop applyToJob jobIds
               (if ok then results\<lparr>successful := successful results @ [jobId]\<rparr>
                else results\<lparr>failed := failed results @ [jobId]\<rparr>, w')
         | (Inl e, w') \<Rightarrow>
             processJobs_loop applyToJob jobIds (results\<lparr>failed := failed results @ [jobId]\<rparr>, w')))"

definition processJobs ::
    "bool \<Rightarrow> bool \<Rightarrow> ('w \<Rightarrow> string \<Rightarrow> (js_error + bool) \<times> 'w) \<Rightarrow> string list \<Rightarrow> 'w \<Rightarrow>
     js_error + job_results \<times> 'w" where
  "processJobs ready isLoggedIn applyToJob jobIds w =
     (if \<not> ready \<or> \<not> isLoggedIn then Inl (Error ''Automator not ready or not logged in'')
      else Inr (processJobs_loop applyToJob jobIds (\<lparr>successful = [], failed = []\<rparr>, w)))"


section \<open>The single-flight guard of the service (app.js)\<close>

record stats =
  totalJobsProcessed :: nat
  successCount :: nat
  failCount :: nat

text \<open>
  The service between two turns of the event loop: the flag \<^verbatim>\<open>isProcessing\<close>, the batches
  whose call of \<^verbatim>\<open>handleNewJobs\<close> has set the flag and not yet reached its
  \<^verbatim>\<open>finally\<close> block (the batches in processing), the batches waiting in a pending
  \<^verbatim>\<open>setTimeout\<close>, and the counters.
\<close>

record service =
  isProcessing :: bool
  inflight :: "string list list"
  timers :: "string list list"
  counters :: stats

definition initial_service :: service where
  "initial_service =
     \<lparr>isProcessing = False, inflight = [], timers = [],
      counters = \<lparr>totalJobsProcessed = 0, successCount = 0, failCount = 0\<rparr>\<rparr>"

text \<open>\<^verbatim>\<open>handleNewJobs(jobIds)\<close> up to its first \<^verbatim>\<open>await\<close>: one turn of the event loop,
  in which nothing else runs.\<close>

definition handleNewJobs_enter :: "string list \<Rightarrow> service \<Rightarrow> service" where
  "handleNewJobs_enter jobIds s =
     (if jobIds = [] then s
      else if isProcessing s then s\<lparr>timers := timers s @ [jobIds]\<rparr>
      else s\<lparr>isProcessing := True, inflight := inflight s @ [jobIds]\<rparr>)"

text \<open>The end of the call: \<^verbatim>\<open>processJobs\<close> has returned its results or thrown; the
  counters are updated and the \<^verbatim>\<open>finally\<close> block clears the flag.  The notification
  awaited in between touches neither the flag nor the batches, so both turns are taken as
  one.\<close>

definition handleNewJobs_leave :: "string list \<Rightarrow> js_error + job_results \<Rightarrow> service \<Rightarrow> service" where
  "handleNewJobs_leave jobIds r s =
     (let c = counters s;
          c = (case r of
                 Inr results \<Rightarrow>
                   c\<lparr>totalJobsProcessed := totalJobsProcessed c + length jobIds,
                     successCount := successCount c + length (successful results),
                     failCount := failCount c + length (failed results)\<rparr>
               | Inl e \<Rightarrow> c\<lparr>failCount := failCount c + length jobIds\<rparr>)
      in s\<lparr>counters := c, isProcessing := False, inflight := remove1 jobIds (inflight s)\<rparr>)"

text \<open>
  What the event loop can run next: a new call of \<^verbatim>\<open>handleNewJobs\<close> (from the poller
  or the route \<^verbatim>\<open>/trigger\<close>), a pending timer, or the end of a batch in processing.
\<close>

datatype event =
    Call "string list"
  | Timer nat
  | Settle "string list" "js_error + job_results"

fun step :: "event \<Rightarrow> service \<Rightarrow> service" where
  "step (Call jobIds) s = handleNewJobs_enter jobIds s"
| "step (Timer i) s =
     (if i < length (timers s)
      then handleNewJobs_enter (timers s ! i) (s\<lparr>timers := take i (timers s) @ drop (Suc i) (timers s)\<rparr>)
      else s)"
| "step (Settle jobIds r) s =
     (if jobIds \<in> set (inflight s) then handleNewJobs_leave jobIds r s else s)"

definition run :: "event list \<Rightarrow> service" where
  "run evs = fold step evs initial_service"

section \<open>Applying to a job by its details\<close>

text \<open>An entry \<^verbatim>\<open>div.entry\<close> of the page Meine Jobs: its attribute \<^verbatim>\<open>data-status\<close>,
  whether it holds a \<^verbatim>\<open>span.date.location\<close>, and its displayed text.\<close>

record entry =
  status :: string
  has_date_location :: bool
  entry_text :: string

text \<open>The selector \<^verbatim>\<open>div.entry[data-status="new"], div.entry[data-status="neu"]\<close>.\<close>

definition is_new :: "entry \<Rightarrow> bool" where
  "is_new e = (status e = ''new'' \<or> status e = ''neu'')"

text \<open>
  \<^verbatim>\<open>applyToJobByDetails\<close> of automator-simple.js.  The text filter of the browser library
  is the argument \<open>hasText\<close> (needle first); \<open>goToMeineJobs\<close> is the error thrown by the
  navigation, if any; \<open>page\<close> holds the entries after it; \<open>submitAcceptInEntry\<close> is the
  submission with its check.  Everything thrown inside is caught and becomes \<^verbatim>\<open>false\<close>.
\<close>

definition applyToJobByDetails_simple ::
    "(string \<Rightarrow> string \<Rightarrow> bool) \<Rightarrow> js_error option \<Rightarrow> entry list \<Rightarrow> (entry \<Rightarrow> js_error + bool) \<Rightarrow>
     job_record \<Rightarrow> js_error + bool" where
  "applyToJobByDetails_simple hasText goToMeineJobs page submitAcceptInEntry job =
     (case goToMeineJobs of
        Some e \<Rightarrow> Inr False
      | None \<Rightarrow>
          let needle = ''Am '' @ date job @ '' um '' @ time job @ '' in '' @ zip_code job @ '' '' @ city job;
              submit = (\<lambda>e. case submitAcceptInEntry e of Inl err \<Rightarrow> Inr False | Inr ok \<Rightarrow> Inr ok)
          in case filter (\<lambda>e. is_new e \<and> hasText needle (entry_text e)) page of
               e # _ \<Rightarrow> submit e
             | [] \<Rightarrow>
                 (case filter (\<lambda>e. is_new e \<and>
                          hasText (''Am '' @ date job @ '' um '' @ time job @ '' in '' @ zip_code job)
                            (entry_text e)) page of
                    [] \<Rightarrow> Inr False
                  | e # _ \<Rightarrow> submit e))"

text \<open>\<^verbatim>\<open>norm\<close> of automator-simple-new.js: NBSP to space, white space collapsed, trimmed.\<close>

definition norm :: "string \<Rightarrow> string" where
  "norm s = trim (collapse_ws (map (\<lambda>c. if code c = 160 then CHR '' '' else c) s))"

text \<open>
  \<^verbatim>\<open>applyToJobByDetails\<close> of automator-simple-new.js.  Here \<open>goToMeineJobs\<close> is the
  outcome of the navigation: an error thrown, which this function does not catch, or its
  boolean result, which only decides a log line.
\<close>

definition applyToJobByDetails_new ::
    "(string \<Rightarrow> string \<Rightarrow> bool) \<Rightarrow> js_error + bool \<Rightarrow> entry list \<Rightarrow> (entry \<Rightarrow> js_error + bool) \<Rightarrow>
     job_record \<Rightarrow> js_error + bool" where
  "applyToJobByDetails_new hasText goToMeineJobs page submitAcceptInEntry job =
     (case goToMeineJobs of
        Inl e \<Rightarrow> Inl e
      | Inr ok \<Rightarrow>
          let needle = norm (''Am '' @ date job @ '' um '' @ time job @ '' in '' @ zip_code job)
          in case filter (\<lambda>e. is_new e \<and> has_date_location e \<and> hasText needle (entry_text e)) page of
               e # _ \<Rightarrow> submitAcceptInEntry e
             | [] \<Rightarrow>
                 (case filter (\<lambda>e. is_new e \<and> hasText needle (entry_text e)) page of
                    [] \<Rightarrow> Inr False
                  | e # _ \<Rightarrow> submitAcceptInEntry e))"

section \<open>Checking the mailbox\<close>

text \<open>What the job handler resolves to: undefined, or an object whose field
  \<^verbatim>\<open>results\<close> may be missing.\<close>

record handler_result =
  results :: "job_results option"

text \<open>\<^verbatim>\<open>result && result.results && result.results.successful.length > 0\<close>\<close>

definition reports_success :: "handler_result option \<Rightarrow> bool" where
  "reports_success result =
     (case result of
        None \<Rightarrow> False
      | Some r \<Rightarrow> (case results r of None \<Rightarrow> False | Some rs \<Rightarrow> length (successful rs) > 0))"

text \<open>The watcher: its set of processed jobs, its retry counters by message, and the
  messages that carry the flag \<^verbatim>\<open>\Seen\<close> on the server.\<close>

record watcher =
  processedJobs :: "string list"
  emailRetryCount :: "nat \<rightharpoonup> nat"
  seen :: "nat set"

definition getEmailRetryCount :: "nat \<Rightarrow> watcher \<Rightarrow> nat" where
  "getEmailRetryCount uid w = (case emailRetryCount w uid of None \<Rightarrow> 0 | Some n \<Rightarrow> n)"

definition incrementEmailRetryCount :: "nat \<Rightarrow> watcher \<Rightarrow> watcher" where
  "incrementEmailRetryCount uid w =
     w\<lparr>emailRetryCount := (emailRetryCount w)(uid \<mapsto> getEmailRetryCount uid w + 1)\<rparr>"

definition clearEmailRetryCount :: "nat \<Rightarrow> watcher \<Rightarrow> watcher" where
  "clearEmailRetryCount uid w = w\<lparr>emailRetryCount := (emailRetryCount w)(uid := None)\<rparr>"

text \<open>The \<^verbatim>\<open>catch\<close> block of the loop body of the retrying watcher.\<close>

definition on_processing_error :: "nat \<Rightarrow> watcher \<Rightarrow> bool \<times> watcher" where
  "on_processing_error uid w =
     (if getEmailRetryCount uid w \<ge> 2 then (True, w) else (False, incrementEmailRetryCount uid w))"

text \<open>
  The body of the loop of \<^verbatim>\<open>checkForNewEmails\<close> in the retrying watcher (unnamed part 2),
  for one message.  \<open>getSubjectPlusBody\<close>, \<open>jobHandler\<close> and \<open>markAsRead\<close> return or throw.
\<close>

definition process_email_retrying ::
    "(nat \<Rightarrow> js_error + string) \<Rightarrow> (job_record \<Rightarrow> js_error + handler_result option) \<Rightarrow>
     (nat \<Rightarrow> js_error option) \<Rightarrow> nat \<Rightarrow> watcher \<Rightarrow> watcher" where
  "process_email_retrying getSubjectPlusBody jobHandler markAsRead uid w =
     (let (shouldMarkAsRead, w) =
        (case getSubjectPlusBody uid of
           Inl err \<Rightarrow> on_processing_error uid w
         | Inr emailSubject \<Rightarrow>
             (case parseJobDetailsFromText emailSubject of
                Some details \<Rightarrow>
                  let jobKey = date details @ ''_'' @ time details @ ''_'' @ zip_code details in
                  if isJobAlreadyProcessed jobKey (processedJobs w) then (True, w)
                  else
                    (case jobHandler details of
                       Inl err \<Rightarrow> on_processing_error uid w
                     | Inr result \<Rightarrow>
                         if reports_success result then
                           (True, w\<lparr>processedJobs := markJobAsProcessed jobKey (processedJobs w)\<rparr>)
                         else if getEmailRetryCount uid w \<ge> 3 then (True, w)
                         else (False, incrementEmailRetryCount uid w))
              | None \<Rightarrow>
                  if getEmailRetryCount uid w \<ge> 2 then (True, w)
                  else (False, incrementEmailRetryCount uid w)))
      in if shouldMarkAsRead then
           (case markAsRead uid of
              None \<Rightarrow> clearEmailRetryCount uid (w\<lparr>seen := insert uid (seen w)\<rparr>)
            | Some markError \<Rightarrow> w)
         else w)"

text \<open>\<^verbatim>\<open>checkForNewEmails\<close> of the retrying watcher: nothing without a connection, else the
  unseen messages found by the search, one after the other.\<close>

definition checkForNewEmails_retrying ::
    "bool \<Rightarrow> (nat \<Rightarrow> js_error + string) \<Rightarrow> (job_record \<Rightarrow> js_error + handler_result option) \<Rightarrow>
     (nat \<Rightarrow> js_error option) \<Rightarrow> nat list \<Rightarrow> watcher \<Rightarrow> watcher" where
  "checkForNewEmails_retrying connected getSubjectPlusBody jobHandler markAsRead uids w =
     (if \<not> connected then w
      else fold (process_email_retrying getSubjectPlusBody jobHandler markAsRead) uids w)"

text \<open>
  The body of the loop of \<^verbatim>\<open>checkForNewEmails\<close> in email-watcher-smtp-new.js: the
  message is marked after the handler has returned, whatever it returned; an error thrown
  on the way is logged and leaves the message as it is.
\<close>

definition process_email_new ::
    "(nat \<Rightarrow> js_error + string \<times> int) \<Rightarrow> (job_record \<Rightarrow> js_error + handler_result option) \<Rightarrow>
     (nat \<Rightarrow> js_error option) \<Rightarrow> nat \<Rightarrow> nat \<Rightarrow> watcher \<Rightarrow> watcher" where
  "process_email_new getSubjectAndDate jobHandler markAsRead nowYear uid w =
     (case getSubjectAndDate uid of
        Inl err \<Rightarrow> w
      | Inr (subject, internalDate) \<Rightarrow>
          (case parseJobDetailsFromSubject subject internalDate nowYear of
             Some details \<Rightarrow>
               (case jobHandler details of
                  Inl err \<Rightarrow> w
                | Inr result \<Rightarrow>
                    (case markAsRead uid of
                       None \<Rightarrow> w\<lparr>seen := insert uid (seen w)\<rparr>
                     | Some err \<Rightarrow> w))
           | None \<Rightarrow> w))"

definition checkForNewEmails_new ::
    "bool \<Rightarrow> (nat \<Rightarrow> js_error + string \<times> int) \<Rightarrow> (job_record \<Rightarrow> js_error + handler_result option) \<Rightarrow>
     (nat \<Rightarrow> js_error option) \<Rightarrow> nat \<Rightarrow> nat list \<Rightarrow> watcher \<Rightarrow> watcher" where
  "checkForNewEmails_new connected getSubjectAndDate jobHandler markAsRead nowYear uids w =
     (if \<not> connected then w
      else fold (process_email_new getSubjectAndDate jobHandler markAsRead nowYear) uids w)"

section \<open>The canonical subject line and sample data\<close>

text \<open>Words joined by single spaces.\<close>

fun join_words :: "string list \<Rightarrow> string" where
  "join_words [] = []"
| "join_words [w] = w"
| "join_words (w # v # ws) = w @ CHR '' '' # join_words (v # ws)"




text \<open>A text filter for the entries of a page: the needle occurs in the text.\<close>

fun contains_text :: "string \<Rightarrow> string \<Rightarrow> bool" where
  "contains_text needle [] = (needle = [])"
| "contains_text needle (c # cs) = (prefix needle (c # cs) \<or> contains_text needle cs)"

definition accepting_submit :: "entry \<Rightarrow> js_error + bool" where
  "accepting_submit e = Inr True"

text \<open>A transporter whose \<^verbatim>\<open>sendMail\<close> rejects.\<close>

definition refusing_sendMail :: "mail \<Rightarrow> js_error option" where
  "refusing_sendMail m = Some (Error ''connect ECONNREFUSED'')"

text \<open>An \<^verbatim>\<open>applyToJob\<close> that finds no entry.\<close>

definition idle_applyToJob :: "unit \<Rightarrow> string \<Rightarrow> (js_error + bool) \<times> unit" where
  "idle_applyToJob w jobId = (Inr False, w)"

text \<open>The invariant of the single-flight guard.\<close>

definition single_flight :: "service \<Rightarrow> bool" where
  "single_flight s = (length (inflight s) \<le> 1 \<and> (isProcessing s \<longleftrightarrow> inflight s \<noteq> []))"

text \<open>A mailbox with one message, a handler that reports a failed application, and a
  server that accepts the flag.\<close>

definition sample_subject :: string where
  "sample_subject = ''2 Umzugshelfer am 23.08.2025 ab 15:00 Uhr in 58452 Witten gesucht''"

definition sample_job :: job_record where
  "sample_job = \<lparr>date = ''23.08.2025'', time = ''15:00'', zip_code = ''58452'', city = ''Witten''\<rparr>"

definition fetch_sample :: "nat \<Rightarrow> js_error + string \<times> int" where
  "fetch_sample uid = Inr (sample_subject, 0)"

definition fetch_sample_subject :: "nat \<Rightarrow> js_error + string" where
  "fetch_sample_subject uid = Inr sample_subject"

definition failing_handler :: "job_record \<Rightarrow> js_error + handler_result option" where
  "failing_handler details =
     Inr (Some \<lparr>results = Some \<lparr>successful = [], failed = [''23.08.2025_15:00_58452'']\<rparr>\<rparr>)"

definition mark_ok :: "nat \<Rightarrow> js_error option" where
  "mark_ok uid = None"

definition fresh_watcher :: watcher where
  "fresh_watcher = \<lparr>processedJobs = [], emailRetryCount = Map.empty, seen = {}\<rparr>"

definition succeeding_handler :: "job_record \<Rightarrow> js_error + handler_result option" where
  "succeeding_handler details =
     Inr (Some \<lparr>results = Some \<lparr>successful = [''23.08.2025_15:00_58452''], failed = []\<rparr>\<rparr>)"

definition throwing_handler :: "job_record \<Rightarrow> js_error + handler_result option" where
  "throwing_handler details = Inl (Error ''Login failed - check credentials'')"

text \<open>The text on which the parser searches for date, time and place: the subject with its
  white space collapsed and trimmed, and the first \<^verbatim>\<open>morgen\<close> token removed.\<close>

definition prepared :: "string \<Rightarrow> string" where
  "prepared subject = js_replace re_morgen [] (trim (collapse_ws subject))"

text \<open>A subject without a year and with a bare hour.\<close>

definition yearless_subject :: string where
  "yearless_subject = ''2 Umzugshelfer am 23.08. ab 9 Uhr in 58452 Witten gesucht''"

text \<open>Subjects without a time token, without a place, and with the word \<^verbatim>\<open>morgen\<close>
  between the anchor and the hour.\<close>

definition timeless_subject :: string where
  "timeless_subject = ''2 Umzugshelfer am 23.08.2025 in 58452 Witten gesucht''"

definition placeless_subject :: string where
  "placeless_subject = ''2 Umzugshelfer am 23.08.2025 ab 15:00 Uhr in Witten gesucht''"

definition morgen_subject :: string where
  "morgen_subject = ''2 Umzugshelfer am 23.08.2025 um morgen 9 Uhr in 58452 Witten gesucht''"















text \<open>Two batches of job ids, and the results of a batch that succeeded.\<close>

definition first_batch :: "string list" where
  "first_batch = [''49768'']"

definition second_batch :: "string list" where
  "second_batch = [''49770'']"

definition first_done :: "js_error + job_results" where
  "first_done = Inr \<lparr>successful = [''49768''], failed = []\<rparr>"

section \<open>Evaluating the character classes and the matcher\<close>

lemma code_Char [simp]:
  "code (Char b0 b1 b2 b3 b4 b5 b6 b7) = of_char (Char b0 b1 b2 b3 b4 b5 b6 b7)"
  by (simp add: code_def)

lemma isDigit_Char [simp]:
  "isDigit (Char b0 b1 b2 b3 b4 b5 b6 b7) =
     (48 \<le> code (Char b0 b1 b2 b3 b4 b5 b6 b7) \<and> code (Char b0 b1 b2 b3 b4 b5 b6 b7) \<le> 57)"
  by (simp only: isDigit_def)

lemma isSpace_Char [simp]:
  "isSpace (Char b0 b1 b2 b3 b4 b5 b6 b7) =
     (code (Char b0 b1 b2 b3 b4 b5 b6 b7) \<in> {9, 10, 11, 12, 13, 32, 160})"
  by (simp only: isSpace_def)

lemma isWordChar_Char [simp]:
  "isWordChar (Char b0 b1 b2 b3 b4 b5 b6 b7) =
     (let n = code (Char b0 b1 b2 b3 b4 b5 b6 b7) in
      (48 \<le> n \<and> n \<le> 57) \<or> (65 \<le> n \<and> n \<le> 90) \<or> n = 95 \<or> (97 \<le> n \<and> n \<le> 122))"
  by (simp only: isWordChar_def Let_def)

lemma isLetter_Char [simp]:
  "isLetter (Char b0 b1 b2 b3 b4 b5 b6 b7) =
     (let n = code (Char b0 b1 b2 b3 b4 b5 b6 b7) in
      (65 \<le> n \<and> n \<le> 90) \<or> (97 \<le> n \<and> n \<le> 122) \<or> n = 170 \<or> n = 181 \<or> n = 186 \<or>
      (192 \<le> n \<and> n \<le> 214) \<or> (216 \<le> n \<and> n \<le> 246) \<or> (248 \<le> n \<and> n \<le> 255))"
  by (simp only: isLetter_def Let_def)

lemma canon_Char [simp]:
  "canon (Char b0 b1 b2 b3 b4 b5 b6 b7) =
     (let n = code (Char b0 b1 b2 b3 b4 b5 b6 b7) in
      if (97 \<le> n \<and> n \<le> 122) \<or> (224 \<le> n \<and> n \<le> 254 \<and> n \<noteq> 247) then n - 32 else n)"
  by (simp only: canon_def Let_def)

lemma cityChar_Char [simp]:
  "cityChar (Char b0 b1 b2 b3 b4 b5 b6 b7) =
     (isLetter (Char b0 b1 b2 b3 b4 b5 b6 b7) \<or>
      Char b0 b1 b2 b3 b4 b5 b6 b7 = CHR ''-'' \<or> Char b0 b1 b2 b3 b4 b5 b6 b7 = CHR ''.'' \<or>
      Char b0 b1 b2 b3 b4 b5 b6 b7 = CHR 0x27 \<or> Char b0 b1 b2 b3 b4 b5 b6 b7 = CHR ''('' \<or>
      Char b0 b1 b2 b3 b4 b5 b6 b7 = CHR '')'' \<or> Char b0 b1 b2 b3 b4 b5 b6 b7 = CHR ''/'' \<or>
      isSpace (Char b0 b1 b2 b3 b4 b5 b6 b7))"
  by (simp only: cityChar_def)

lemma star_cls_nil [simp]: "rmatch (Star g (Cls p)) (b, [], m) = [(b, [], m)]"
  by (simp add: rmatch.simps(6))

lemma star_cls_cons [simp]:
  "rmatch (Star g (Cls p)) (b, c # cs, m) =
     (if p c then
        (if g then rmatch (Star g (Cls p)) (c # b, cs, m) @ [(b, c # cs, m)]
         else (b, c # cs, m) # rmatch (Star g (Cls p)) (c # b, cs, m))
      else [(b, c # cs, m)])"
  by (simp add: rmatch.simps(6) [of g "Cls p" "(b, c # cs, m)"] remaining_def)

named_theorems re_defs

lemmas [re_defs] = re_nonjob_def re_morgen_def re_date_full_def re_date_short_def um_ab_def
  re_time_colon_def re_time_dot_def re_time_hour_def not_after_date_def re_time_bare_colon_def
  re_time_bare_dot_def loc_end_def re_loc_def lit_def liti_def Opt_def Plus_def
  PlusLazy_def digit_def space_def d12_def d2_def d4_def d5_def set_cap_def consumed_def
  remaining_def

named_theorems parse_defs

lemmas [parse_defs] = parseJobDetailsFromSubject_def parse_date_def parse_time_def js_match_def
  js_test_def js_replace_def trim_def grp_def str_def z2_def Let_def

named_theorems text_defs

lemmas [text_defs] = parseJobDetailsFromText_def subjectPattern_def cityCharDe_def
  re_trailing_word_def re_trailing_punct_def


lemma parse_subject_sample:
  "parseJobDetailsFromSubject sample_subject t y = Some sample_job"
  by (simp add: sample_subject_def sample_job_def parse_defs re_defs)

lemma parse_text_sample:
  "parseJobDetailsFromText sample_subject = Some sample_job"
  by (simp add: sample_subject_def sample_job_def parseJobDetailsFromText_def subjectPattern_def
      cityCharDe_def re_trailing_word_def re_trailing_punct_def parse_defs re_defs)

section \<open>Facts about the character classes\<close>









section \<open>The canonical subject is already normalised\<close>


lemma join_words_Cons:
  "ws \<noteq> [] \<Longrightarrow> join_words (w # ws) = w @ CHR '' '' # join_words ws"
  by (cases ws) simp_all









section \<open>Searching the canonical subject\<close>




subsection \<open>The date\<close>






subsection \<open>The time\<close>








subsection \<open>The place\<close>

















subsection \<open>The city\<close>











subsection \<open>The three searches on the canonical subject\<close>







section \<open>The parser unfolded\<close>

lemma parse_time_none:
  assumes "js_match re_time_colon s = None" and "js_match re_time_dot s = None"
    and "js_match re_time_hour s = None" and "js_match re_time_bare_colon s = None"
    and "js_match re_time_bare_dot s = None"
  shows "parse_time s = (None, None)"
  using assms by (simp add: parse_time_def)

lemma parse_unfold:
  "parseJobDetailsFromSubject subject t y =
     (if subject = [] \<or> js_test re_nonjob (trim (collapse_ws subject)) then None
      else case parse_date (prepared subject) y of
             None \<Rightarrow> None
           | Some dateStr \<Rightarrow>
               if falsy (fst (parse_time (prepared subject))) then None
               else case js_match re_loc (prepared subject) of
                      None \<Rightarrow> None
                    | Some loc \<Rightarrow>
                        Some \<lparr>date = dateStr,
                              time = z2 (str (fst (parse_time (prepared subject)))) @ '':'' @
                                (if falsy (snd (parse_time (prepared subject))) then ''00''
                                 else str (snd (parse_time (prepared subject)))),
                              zip_code = grp loc 1, city = trim (collapse_ws (grp loc 2))\<rparr>)"
  by (simp add: parseJobDetailsFromSubject_def prepared_def Let_def split_beta
      split: option.splits)

section \<open>The subject pattern of the retrying watcher on the canonical subject\<close>







subsection \<open>The city\<close>










subsection \<open>The match\<close>


subsection \<open>The cleaning of the city\<close>














section \<open>The canonical subject line\<close>




























section \<open>No matching entry\<close>

text \<open>
  Claim C2.  When no entry of the listings page contains the text
  \<^verbatim>\<open>Am {date} um {time} in {zip}\<close>, with or without the city (and, for the variant that
  normalises the white space of the needle, the normalised text neither), then
  \<^verbatim>\<open>applyToJobByDetails\<close> returns \<^verbatim>\<open>false\<close> and does not throw: in automator-simple.js
  whatever the navigation to the page did, in automator-simple-new.js once the navigation
  to the page has returned.
\<close>

theorem applyToJobByDetails_no_match:
  assumes "\<forall>e\<in>set page.
             \<not> hasText (''Am '' @ date job @ '' um '' @ time job @ '' in '' @ zip_code job @ '' '' @ city job)
                 (entry_text e) \<and>
             \<not> hasText (''Am '' @ date job @ '' um '' @ time job @ '' in '' @ zip_code job)
                 (entry_text e) \<and>
             \<not> hasText (norm (''Am '' @ date job @ '' um '' @ time job @ '' in '' @ zip_code job))
                 (entry_text e)"
  shows "applyToJobByDetails_simple hasText thrown page submitAcceptInEntry job = Inr False \<and>
         applyToJobByDetails_new hasText (Inr ok) page submitAcceptInEntry job = Inr False"
proof -
  have 1: "filter (\<lambda>e. is_new e \<and> hasText (''Am '' @ date job @ '' um '' @ time job @ '' in '' @
             zip_code job @ '' '' @ city job) (entry_text e)) page = []"
    using assms by (simp add: filter_empty_conv)
  have 2: "filter (\<lambda>e. is_new e \<and> hasText (''Am '' @ date job @ '' um '' @ time job @ '' in '' @
             zip_code job) (entry_text e)) page = []"
    using assms by (simp add: filter_empty_conv)
  have 3: "filter (\<lambda>e. is_new e \<and> has_date_location e \<and> hasText (norm (''Am '' @ date job @
             '' um '' @ time job @ '' in '' @ zip_code job)) (entry_text e)) page = []"
    using assms by (simp add: filter_empty_conv)
  have 4: "filter (\<lambda>e. is_new e \<and> hasText (norm (''Am '' @ date job @ '' um '' @ time job @
             '' in '' @ zip_code job)) (entry_text e)) page = []"
    using assms by (simp add: filter_empty_conv)
  show ?thesis
    using 1 2 3 4
    by (simp add: applyToJobByDetails_simple_def applyToJobByDetails_new_def Let_def
        split: option.splits)
qed

lemma norm_sample_needle:
  "norm (''Am '' @ date sample_job @ '' um '' @ time sample_job @ '' in '' @ zip_code sample_job)
     = ''Am 23.08.2025 um 15:00 in 58452''"
  by (simp add: norm_def trim_def sample_job_def)

theorem applyToJobByDetails_no_match_witness:
  "applyToJobByDetails_simple contains_text None
     [\<lparr>status = ''new'', has_date_location = True,
       entry_text = ''Am 24.08.2025 um 09:00 in 44135 Dortmund''\<rparr>] accepting_submit sample_job
     = Inr False \<and>
   applyToJobByDetails_new contains_text (Inr True)
     [\<lparr>status = ''new'', has_date_location = True,
       entry_text = ''Am 24.08.2025 um 09:00 in 44135 Dortmund''\<rparr>] accepting_submit sample_job
     = Inr False"
proof -
  have h: "\<forall>e\<in>set [\<lparr>status = ''new'', has_date_location = True,
                      entry_text = ''Am 24.08.2025 um 09:00 in 44135 Dortmund''\<rparr>].
             \<not> contains_text (''Am '' @ date sample_job @ '' um '' @ time sample_job @ '' in '' @
                 zip_code sample_job @ '' '' @ city sample_job) (entry_text e) \<and>
             \<not> contains_text (''Am '' @ date sample_job @ '' um '' @ time sample_job @ '' in '' @
                 zip_code sample_job) (entry_text e) \<and>
             \<not> contains_text (norm (''Am '' @ date sample_job @ '' um '' @ time sample_job @
                 '' in '' @ zip_code sample_job)) (entry_text e)"
    unfolding norm_sample_needle by (simp add: sample_job_def)
  show ?thesis by (rule applyToJobByDetails_no_match [OF h])
qed

section \<open>The single-flight guard\<close>

lemma single_flight_enter: "single_flight s \<Longrightarrow> single_flight (handleNewJobs_enter b s)"
  by (auto simp: single_flight_def handleNewJobs_enter_def)

lemma single_flight_leave:
  "single_flight s \<Longrightarrow> b \<in> set (inflight s) \<Longrightarrow> single_flight (handleNewJobs_leave b r s)"
  by (cases "inflight s") (auto simp: single_flight_def handleNewJobs_leave_def Let_def)

lemma single_flight_step: "single_flight s \<Longrightarrow> single_flight (step e s)"
proof (cases e)
  case (Call b)
  assume "single_flight s"
  then show ?thesis using Call by (simp add: single_flight_enter)
next
  case (Timer i)
  assume a: "single_flight s"
  have "single_flight (s\<lparr>timers := take i (timers s) @ drop (Suc i) (timers s)\<rparr>)"
    using a by (simp add: single_flight_def)
  then show ?thesis using Timer a by (simp add: single_flight_enter)
next
  case (Settle b r)
  assume "single_flight s"
  then show ?thesis using Settle by (simp add: single_flight_leave)
qed

lemma single_flight_fold: "single_flight s \<Longrightarrow> single_flight (fold step evs s)"
  by (induction evs arbitrary: s) (simp_all add: single_flight_step)

lemma single_flight_run: "single_flight (run evs)"
  unfolding run_def by (rule single_flight_fold) (simp add: single_flight_def initial_service_def)

lemma step_starts_from_idle:
  "single_flight s \<Longrightarrow> a \<in> set (inflight (step e s)) \<Longrightarrow> a \<notin> set (inflight s) \<Longrightarrow>
   inflight s = []"
proof (cases e)
  case (Call b)
  assume "single_flight s" "a \<in> set (inflight (step e s))" "a \<notin> set (inflight s)"
  then show ?thesis using Call
    by (auto simp: single_flight_def handleNewJobs_enter_def split: if_splits)
next
  case (Timer i)
  assume "single_flight s" "a \<in> set (inflight (step e s))" "a \<notin> set (inflight s)"
  then show ?thesis using Timer
    by (auto simp: single_flight_def handleNewJobs_enter_def split: if_splits)
next
  case (Settle b r)
  assume "single_flight s" "a \<in> set (inflight (step e s))" "a \<notin> set (inflight s)"
  then show ?thesis using Settle
    by (cases "inflight s")
       (auto simp: single_flight_def handleNewJobs_leave_def Let_def split: if_splits)
qed

text \<open>
  Claim C3.  After any sequence of turns of the event loop (calls of \<^verbatim>\<open>handleNewJobs\<close>,
  timers firing, batches reaching their end by returning or throwing), at most one batch
  is in processing, and the flag \<^verbatim>\<open>isProcessing\<close> is set exactly while one is.  A batch
  submitted while another one is in processing does not start: it is put on a timer and the
  batch in processing stays the only one.  A batch enters processing only in a turn that
  begins with no batch in processing, that is, after the previous one has reached its end.
\<close>

theorem handleNewJobs_single_flight:
  "length (inflight (run evs)) \<le> 1 \<and>
   (isProcessing (run evs) \<longleftrightarrow> inflight (run evs) \<noteq> []) \<and>
   (\<forall>a b. inflight (run evs) = [a] \<and> b \<noteq> [] \<longrightarrow>
      inflight (step (Call b) (run evs)) = [a] \<and>
      timers (step (Call b) (run evs)) = timers (run evs) @ [b]) \<and>
   (\<forall>e a. a \<in> set (inflight (step e (run evs))) \<and> a \<notin> set (inflight (run evs)) \<longrightarrow>
      inflight (run evs) = [])"
proof -
  have sf: "single_flight (run evs)" by (rule single_flight_run)
  have a: "length (inflight (run evs)) \<le> 1"
    "isProcessing (run evs) \<longleftrightarrow> inflight (run evs) \<noteq> []"
    using sf by (simp_all add: single_flight_def)
  have b: "\<forall>a b. inflight (run evs) = [a] \<and> b \<noteq> [] \<longrightarrow>
      inflight (step (Call b) (run evs)) = [a] \<and>
      timers (step (Call b) (run evs)) = timers (run evs) @ [b]"
    using a(2) by (auto simp: handleNewJobs_enter_def)
  have c: "\<forall>e a. a \<in> set (inflight (step e (run evs))) \<and> a \<notin> set (inflight (run evs)) \<longrightarrow>
      inflight (run evs) = []"
    using step_starts_from_idle [OF sf] by blast
  show ?thesis using a b c by blast
qed

theorem handleNewJobs_single_flight_witness:
  "inflight (run [Call first_batch]) = [first_batch] \<and> second_batch \<noteq> [] \<and>
   inflight (step (Call second_batch) (run [Call first_batch])) = [first_batch] \<and>
   timers (step (Call second_batch) (run [Call first_batch])) = [second_batch] \<and>
   length (inflight (run [Call first_batch])) \<le> 1 \<and>
   inflight (run [Call first_batch, Call second_batch, Settle first_batch first_done, Timer 0])
     = [second_batch]"
  using handleNewJobs_single_flight [of "[Call first_batch]"]
  by (simp add: run_def initial_service_def handleNewJobs_enter_def handleNewJobs_leave_def
      first_batch_def second_batch_def first_done_def)

section \<open>When a message is marked read\<close>

lemma process_email_retrying_marks:
  assumes "getSubjectPlusBody uid = Inr subject"
    and "parseJobDetailsFromText subject = Some details"
    and "uid \<notin> seen w"
    and "uid \<in> seen (process_email_retrying getSubjectPlusBody jobHandler markAsRead uid w)"
  shows "isJobAlreadyProcessed (date details @ ''_'' @ time details @ ''_'' @ zip_code details)
           (processedJobs w) \<or>
         (\<exists>r. jobHandler details = Inr r \<and> reports_success r) \<or>
         3 \<le> getEmailRetryCount uid w \<or>
         (\<exists>e. jobHandler details = Inl e \<and> 2 \<le> getEmailRetryCount uid w)"
proof (cases "jobHandler details")
  case (Inl e)
  then show ?thesis
    using assms
    by (auto simp: process_email_retrying_def on_processing_error_def Let_def
        incrementEmailRetryCount_def clearEmailRetryCount_def
        split: if_splits option.splits)
next
  case (Inr r)
  then show ?thesis
    using assms
    by (auto simp: process_email_retrying_def Let_def
        incrementEmailRetryCount_def clearEmailRetryCount_def
        split: if_splits option.splits)
qed

lemma process_email_retrying_leaves_unread:
  assumes "getSubjectPlusBody uid = Inr subject"
    and "parseJobDetailsFromText subject = Some details"
    and "\<not> isJobAlreadyProcessed (date details @ ''_'' @ time details @ ''_'' @ zip_code details)
           (processedJobs w)"
    and "jobHandler details = Inr r" and "\<not> reports_success r"
    and "getEmailRetryCount uid w < 3"
  shows "seen (process_email_retrying getSubjectPlusBody jobHandler markAsRead uid w) = seen w \<and>
         getEmailRetryCount uid (process_email_retrying getSubjectPlusBody jobHandler markAsRead uid w)
           = getEmailRetryCount uid w + 1"
  using assms
  by (simp add: process_email_retrying_def Let_def incrementEmailRetryCount_def
      getEmailRetryCount_def)

lemma process_email_new_marks:
  assumes "getSubjectAndDate uid = Inr (subject, t)"
    and "parseJobDetailsFromSubject subject t y = Some details"
  shows "jobHandler details = Inr r \<Longrightarrow> markAsRead uid = None \<Longrightarrow>
           uid \<in> seen (process_email_new getSubjectAndDate jobHandler markAsRead y uid w)"
    and "jobHandler details = Inl e \<Longrightarrow>
           process_email_new getSubjectAndDate jobHandler markAsRead y uid w = w"
  using assms by (simp_all add: process_email_new_def)

text \<open>
  Claim C4, as amended.  For a message whose subject parses into a job record:
  the retrying watcher (unnamed part 2) marks it read only if the job key was already in
  the set of processed jobs, or the handler reports success, or the retry counter of the
  message has reached 3 (2 when the handler threw); when the handler reports failure while
  fewer than 3 retries are counted, the message stays unread and its counter grows by one.
  The watcher of email-watcher-smtp-new.js keeps no retry budget: it marks the message read
  whenever the handler returns, whatever it reports, and leaves it unread only when the
  handler throws.
\<close>

theorem checkForNewEmails_marks_read:
  "(getSubjectPlusBody uid = Inr subject \<and> parseJobDetailsFromText subject = Some details \<and>
    uid \<notin> seen w \<and>
    uid \<in> seen (process_email_retrying getSubjectPlusBody jobHandler markAsRead uid w) \<longrightarrow>
      isJobAlreadyProcessed (date details @ ''_'' @ time details @ ''_'' @ zip_code details)
        (processedJobs w) \<or>
      (\<exists>r. jobHandler details = Inr r \<and> reports_success r) \<or>
      3 \<le> getEmailRetryCount uid w \<or>
      (\<exists>e. jobHandler details = Inl e \<and> 2 \<le> getEmailRetryCount uid w)) \<and>
   (getSubjectPlusBody uid = Inr subject \<and> parseJobDetailsFromText subject = Some details \<and>
    \<not> isJobAlreadyProcessed (date details @ ''_'' @ time details @ ''_'' @ zip_code details)
        (processedJobs w) \<and>
    jobHandler details = Inr r \<and> \<not> reports_success r \<and> getEmailRetryCount uid w < 3 \<longrightarrow>
      seen (process_email_retrying getSubjectPlusBody jobHandler markAsRead uid w) = seen w \<and>
      getEmailRetryCount uid (process_email_retrying getSubjectPlusBody jobHandler markAsRead uid w)
        = getEmailRetryCount uid w + 1) \<and>
   (getSubjectAndDate uid = Inr (subject', t) \<and>
    parseJobDetailsFromSubject subject' t y = Some details' \<and>
    jobHandler details' = Inr r' \<and> markAsRead uid = None \<longrightarrow>
      uid \<in> seen (process_email_new getSubjectAndDate jobHandler markAsRead y uid w)) \<and>
   (getSubjectAndDate uid = Inr (subject', t) \<and>
    parseJobDetailsFromSubject subject' t y = Some details' \<and>
    jobHandler details' = Inl e' \<longrightarrow>
      process_email_new getSubjectAndDate jobHandler markAsRead y uid w = w)"
  using process_email_retrying_marks [of getSubjectPlusBody uid subject details w jobHandler markAsRead]
    process_email_retrying_leaves_unread [of getSubjectPlusBody uid subject details w jobHandler r markAsRead]
    process_email_new_marks [of getSubjectAndDate uid subject' t y details' jobHandler]
  by blast

theorem checkForNewEmails_marks_read_witness:
  "7 \<notin> seen fresh_watcher \<and>
   7 \<in> seen (process_email_retrying fetch_sample_subject succeeding_handler mark_ok 7 fresh_watcher) \<and>
   (\<exists>r. succeeding_handler sample_job = Inr r \<and> reports_success r) \<and>
   seen (process_email_retrying fetch_sample_subject failing_handler mark_ok 7 fresh_watcher) = {} \<and>
   getEmailRetryCount 7 (process_email_retrying fetch_sample_subject failing_handler mark_ok 7 fresh_watcher) = 1 \<and>
   7 \<in> seen (process_email_new fetch_sample failing_handler mark_ok 2025 7 fresh_watcher) \<and>
   process_email_new fetch_sample throwing_handler mark_ok 2025 7 fresh_watcher = fresh_watcher"
proof -
  have a: "7 \<notin> seen fresh_watcher" "getEmailRetryCount 7 fresh_watcher = 0"
    "\<not> isJobAlreadyProcessed (date sample_job @ ''_'' @ time sample_job @ ''_'' @ zip_code sample_job)
        (processedJobs fresh_watcher)"
    by (simp_all add: fresh_watcher_def getEmailRetryCount_def isJobAlreadyProcessed_def)
  have b: "7 \<in> seen (process_email_retrying fetch_sample_subject succeeding_handler mark_ok 7 fresh_watcher)"
    by (simp add: process_email_retrying_def fetch_sample_subject_def parse_text_sample
        succeeding_handler_def reports_success_def mark_ok_def fresh_watcher_def
        isJobAlreadyProcessed_def clearEmailRetryCount_def)
  have c: "\<not> reports_success (Some \<lparr>results = Some \<lparr>successful = [], failed = [''23.08.2025_15:00_58452'']\<rparr>\<rparr>)"
    by (simp add: reports_success_def)
  have 1: "\<exists>r. succeeding_handler sample_job = Inr r \<and> reports_success r"
    using a b
      checkForNewEmails_marks_read [of fetch_sample_subject 7 sample_subject sample_job
        fresh_watcher succeeding_handler mark_ok]
    by (simp add: fetch_sample_subject_def parse_text_sample succeeding_handler_def)
  have 2: "seen (process_email_retrying fetch_sample_subject failing_handler mark_ok 7 fresh_watcher) = {} \<and>
     getEmailRetryCount 7 (process_email_retrying fetch_sample_subject failing_handler mark_ok 7 fresh_watcher) = 1"
    using a c
      checkForNewEmails_marks_read [of fetch_sample_subject 7 sample_subject sample_job
        fresh_watcher failing_handler mark_ok
        "Some \<lparr>results = Some \<lparr>successful = [], failed = [''23.08.2025_15:00_58452'']\<rparr>\<rparr>"]
    by (simp add: fetch_sample_subject_def parse_text_sample failing_handler_def fresh_watcher_def)
  have 3: "7 \<in> seen (process_email_new fetch_sample failing_handler mark_ok 2025 7 fresh_watcher)"
    using checkForNewEmails_marks_read [of _ 7 _ _ fresh_watcher failing_handler mark_ok _
        fetch_sample sample_subject 0 2025 sample_job
        "Some \<lparr>results = Some \<lparr>successful = [], failed = [''23.08.2025_15:00_58452'']\<rparr>\<rparr>"]
    by (simp add: fetch_sample_def parse_subject_sample failing_handler_def mark_ok_def)
  have 4: "process_email_new fetch_sample throwing_handler mark_ok 2025 7 fresh_watcher = fresh_watcher"
    using checkForNewEmails_marks_read [of _ 7 _ _ fresh_watcher throwing_handler mark_ok _
        fetch_sample sample_subject 0 2025 sample_job _ "Error ''Login failed - check credentials''"]
    by (simp add: fetch_sample_def parse_subject_sample throwing_handler_def)
  show ?thesis using a(1) b 1 2 3 4 by blast
qed

text \<open>The claim as stated fails for the watcher of email-watcher-smtp-new.js: the handler
  reports a failed application, no retry has been counted, and the message is marked read.\<close>

theorem new_watcher_marks_read_on_failure:
  "parseJobDetailsFromSubject sample_subject 0 2025 = Some sample_job \<and>
   failing_handler sample_job =
     Inr (Some \<lparr>results = Some \<lparr>successful = [], failed = [''23.08.2025_15:00_58452'']\<rparr>\<rparr>) \<and>
   \<not> reports_success (Some \<lparr>results = Some \<lparr>successful = [], failed = [''23.08.2025_15:00_58452'']\<rparr>\<rparr>) \<and>
   \<not> isJobAlreadyProcessed ''23.08.2025_15:00_58452'' (processedJobs fresh_watcher) \<and>
   getEmailRetryCount 7 fresh_watcher = 0 \<and>
   7 \<notin> seen fresh_watcher \<and>
   7 \<in> seen (process_email_new fetch_sample failing_handler mark_ok 2025 7 fresh_watcher)"
  by (simp add: parse_subject_sample failing_handler_def reports_success_def
      isJobAlreadyProcessed_def fresh_watcher_def getEmailRetryCount_def process_email_new_def
      fetch_sample_def mark_ok_def)

section \<open>Subjects without a time or a place\<close>

lemma sample_time_tokens:
  "js_match re_time_colon timeless_subject = None"
  "js_match re_time_dot timeless_subject = None"
  "js_match re_time_hour timeless_subject = None"
  "js_match re_time_bare_colon timeless_subject = None"
  "js_match re_time_bare_dot timeless_subject = None"
  by (simp_all add: timeless_subject_def js_match_def re_defs)

lemma prepared_timeless: "prepared timeless_subject = timeless_subject"
  by (simp add: prepared_def timeless_subject_def js_replace_def trim_def re_defs)

lemma prepared_placeless: "prepared placeless_subject = placeless_subject"
  by (simp add: prepared_def placeless_subject_def js_replace_def trim_def re_defs)

lemma placeless_no_loc: "js_match re_loc placeless_subject = None"
  by (simp add: placeless_subject_def js_match_def re_defs)

lemma morgen_time_tokens:
  "js_match re_time_colon morgen_subject = None"
  "js_match re_time_dot morgen_subject = None"
  "js_match re_time_hour morgen_subject = None"
  "js_match re_time_bare_colon morgen_subject = None"
  "js_match re_time_bare_dot morgen_subject = None"
  by (simp_all add: morgen_subject_def js_match_def re_defs)

lemma parse_morgen_subject:
  "parseJobDetailsFromSubject morgen_subject t y =
     Some \<lparr>date = ''23.08.2025'', time = ''09:00'', zip_code = ''58452'', city = ''Witten''\<rparr>"
  by (simp add: morgen_subject_def parse_defs re_defs)

text \<open>
  Claim C5, as amended.  The parser looks for the time and the place in the prepared
  text: the subject with its white space collapsed and trimmed and its first
  \<^verbatim>\<open>morgen\<close> token removed.  When none of the five time patterns matches the prepared
  text, or when the place pattern (five digits, white space, letter words) does not match
  it, the parser returns null.
\<close>

theorem parse_null_without_time_or_place:
  "(js_match re_time_colon (prepared subject) = None \<and>
    js_match re_time_dot (prepared subject) = None \<and>
    js_match re_time_hour (prepared subject) = None \<and>
    js_match re_time_bare_colon (prepared subject) = None \<and>
    js_match re_time_bare_dot (prepared subject) = None \<longrightarrow>
      parseJobDetailsFromSubject subject t y = None) \<and>
   (js_match re_loc (prepared subject) = None \<longrightarrow>
      parseJobDetailsFromSubject subject t y = None)"
  by (auto simp: parse_unfold parse_time_none split: option.splits)

theorem parse_null_without_time_or_place_witness:
  "js_match re_time_colon (prepared timeless_subject) = None \<and>
   js_match re_time_dot (prepared timeless_subject) = None \<and>
   js_match re_time_hour (prepared timeless_subject) = None \<and>
   js_match re_time_bare_colon (prepared timeless_subject) = None \<and>
   js_match re_time_bare_dot (prepared timeless_subject) = None \<and>
   parseJobDetailsFromSubject timeless_subject 0 2025 = None \<and>
   js_match re_loc (prepared placeless_subject) = None \<and>
   parseJobDetailsFromSubject placeless_subject 0 2025 = None"
  using parse_null_without_time_or_place [of timeless_subject 0 2025]
    parse_null_without_time_or_place [of placeless_subject 0 2025]
  by (simp add: prepared_timeless prepared_placeless sample_time_tokens placeless_no_loc)

text \<open>The claim as stated fails on the subject itself: this subject holds none of the time
  tokens, and the parser returns a record, because the removal of \<^verbatim>\<open>morgen\<close> brings the
  anchor and the hour together.\<close>

theorem parse_morgen_between_anchor_and_hour:
  "js_match re_time_colon morgen_subject = None \<and>
   js_match re_time_dot morgen_subject = None \<and>
   js_match re_time_hour morgen_subject = None \<and>
   js_match re_time_bare_colon morgen_subject = None \<and>
   js_match re_time_bare_dot morgen_subject = None \<and>
   parseJobDetailsFromSubject morgen_subject 0 2025 =
     Some \<lparr>date = ''23.08.2025'', time = ''09:00'', zip_code = ''58452'', city = ''Witten''\<rparr>"
  by (simp add: morgen_time_tokens parse_morgen_subject)

section \<open>A date without a year and a bare hour\<close>

lemma parse_yearless:
  "parseJobDetailsFromSubject yearless_subject t y =
     Some \<lparr>date = ''23.08.'' @ dec y, time = ''09:00'', zip_code = ''58452'', city = ''Witten''\<rparr>"
  by (simp add: yearless_subject_def parse_defs re_defs)








section \<open>The set of processed jobs stays bounded\<close>

lemma fold_set_add_distinct:
  "distinct (acc @ xs) \<Longrightarrow> fold set_add xs acc = acc @ xs"
proof (induction xs arbitrary: acc)
  case Nil
  then show ?case by simp
next
  case (Cons x xs)
  have "x \<notin> set acc" using Cons.prems by auto
  then have "set_add x acc = acc @ [x]" by (simp add: set_add_def)
  moreover have "distinct ((acc @ [x]) @ xs)" using Cons.prems by auto
  ultimately show ?case using Cons.IH [of "acc @ [x]"] by simp
qed

lemma distinct_set_add: "distinct xs \<Longrightarrow> distinct (set_add k xs)"
  by (simp add: set_add_def)

lemma length_set_add: "length (set_add k xs) \<le> Suc (length xs)"
  by (simp add: set_add_def)

lemma markJobAsProcessed_keep:
  "length (set_add k ps) \<le> 1000 \<Longrightarrow> markJobAsProcessed k ps = set_add k ps"
  by (simp add: markJobAsProcessed_def)

lemma markJobAsProcessed_evict:
  assumes "distinct ps" and "1000 < length (set_add k ps)"
  shows "markJobAsProcessed k ps = slice_last 500 (set_add k ps)"
proof -
  have "distinct (slice_last 500 (set_add k ps))"
    using assms(1) by (simp add: slice_last_def distinct_set_add)
  then have "fold set_add (slice_last 500 (set_add k ps)) [] = slice_last 500 (set_add k ps)"
    using fold_set_add_distinct [of "[]"] by simp
  then show ?thesis using assms(2) by (simp add: markJobAsProcessed_def)
qed

lemma markJobAsProcessed_inv:
  assumes "distinct ps" and "length ps \<le> 1000"
  shows "distinct (markJobAsProcessed k ps) \<and> length (markJobAsProcessed k ps) \<le> 1000"
proof (cases "1000 < length (set_add k ps)")
  case True
  then show ?thesis
    using assms markJobAsProcessed_evict [OF assms(1) True]
    by (simp add: slice_last_def distinct_set_add)
next
  case False
  then show ?thesis
    using assms markJobAsProcessed_keep [of k ps] by (simp add: distinct_set_add)
qed

lemma processed_reachable_inv:
  "distinct ps \<Longrightarrow> length ps \<le> 1000 \<Longrightarrow>
   distinct (fold markJobAsProcessed keys ps) \<and> length (fold markJobAsProcessed keys ps) \<le> 1000"
  by (induction keys arbitrary: ps) (simp_all add: markJobAsProcessed_inv)

lemma fold_mark_small:
  "distinct (ps @ keys) \<Longrightarrow> length (ps @ keys) \<le> 1000 \<Longrightarrow>
   fold markJobAsProcessed keys ps = ps @ keys"
proof (induction keys arbitrary: ps)
  case Nil
  then show ?case by simp
next
  case (Cons x xs)
  have "x \<notin> set ps" using Cons.prems by auto
  then have a: "set_add x ps = ps @ [x]" by (simp add: set_add_def)
  then have "markJobAsProcessed x ps = ps @ [x]"
    using Cons.prems(2) by (simp add: markJobAsProcessed_def)
  then show ?case using Cons.IH [of "ps @ [x]"] Cons.prems by simp
qed

text \<open>
  Claim C7.  Let the set of processed jobs be the one reached from the empty set by any
  sequence \<open>keys\<close> of calls of \<^verbatim>\<open>markJobAsProcessed\<close>, and let one more key \<open>k\<close> be marked.
  The set holds at most 1000 keys before, at most 1001 right after the insertion, and at
  most 1000 when the call returns.  Whenever the insertion makes the size exceed 1000, the
  call returns exactly the last 500 keys in insertion order: a suffix of the set, holding
  the new key, of at least half the size (rounded down), the oldest keys being dropped.
\<close>

theorem processed_jobs_eviction:
  "let ps = fold markJobAsProcessed keys [];
       added = set_add k ps;
       r = markJobAsProcessed k ps
   in length ps \<le> 1000 \<and> length added \<le> 1001 \<and> length r \<le> 1000 \<and>
      (1000 < length added \<longrightarrow>
         r = slice_last 500 added \<and> length r = 500 \<and> length added div 2 \<le> length r \<and>
         k \<in> set r \<and> suffix r added)"
proof -
  define ps where "ps = fold markJobAsProcessed keys []"
  have inv: "distinct ps" "length ps \<le> 1000"
    using processed_reachable_inv [of "[]" keys] by (simp_all add: ps_def)
  have len: "length (set_add k ps) \<le> 1001"
    using length_set_add [of k ps] inv(2) by simp
  have r: "length (markJobAsProcessed k ps) \<le> 1000"
    using markJobAsProcessed_inv [OF inv] by simp
  have ev: "1000 < length (set_add k ps) \<Longrightarrow>
      markJobAsProcessed k ps = slice_last 500 (set_add k ps) \<and>
      length (markJobAsProcessed k ps) = 500 \<and>
      length (set_add k ps) div 2 \<le> length (markJobAsProcessed k ps) \<and>
      k \<in> set (markJobAsProcessed k ps) \<and> suffix (markJobAsProcessed k ps) (set_add k ps)"
  proof -
    assume big: "1000 < length (set_add k ps)"
    have eq: "markJobAsProcessed k ps = slice_last 500 (set_add k ps)"
      by (rule markJobAsProcessed_evict [OF inv(1) big])
    have kin: "k \<in> set (slice_last 500 (set_add k ps))"
    proof (cases "k \<in> set ps")
      case True
      then show ?thesis using big inv(2) by (simp add: set_add_def)
    next
      case False
      then show ?thesis using big by (simp add: set_add_def slice_last_def)
    qed
    show ?thesis
      using big len kin unfolding eq by (simp add: slice_last_def suffix_drop)
  qed
  show ?thesis
    unfolding Let_def ps_def [symmetric] using inv(2) len r ev by blast
qed

theorem processed_jobs_eviction_witness:
  "1000 < length (set_add (replicate 1000 (CHR ''a''))
             (fold markJobAsProcessed (map (\<lambda>n. replicate n (CHR ''a'')) [0..<1000]) [])) \<and>
   length (markJobAsProcessed (replicate 1000 (CHR ''a''))
             (fold markJobAsProcessed (map (\<lambda>n. replicate n (CHR ''a'')) [0..<1000]) [])) = 500"
proof -
  let ?keys = "map (\<lambda>n. replicate n (CHR ''a'')) [0..<1000]"
  let ?k = "replicate 1000 (CHR ''a'')"
  have inj: "inj_on (\<lambda>n. replicate n (CHR ''a'')) (set [0..<1000])"
    by (rule inj_onI) (metis length_replicate)
  have d: "distinct ?keys" using inj by (simp add: distinct_map)
  have f: "fold markJobAsProcessed ?keys [] = ?keys"
    using fold_mark_small [of "[]" ?keys] d by simp
  have "?k \<notin> set ?keys"
  proof
    assume "?k \<in> set ?keys"
    then obtain n where "n < 1000" and "?k = replicate n (CHR ''a'')" by auto
    then have "length ?k = n" by (metis length_replicate)
    with \<open>n < 1000\<close> show False by simp
  qed
  then have big: "1000 < length (set_add ?k (fold markJobAsProcessed ?keys []))"
    unfolding f by (simp add: set_add_def)
  show ?thesis
    using big processed_jobs_eviction [of ?keys ?k] unfolding Let_def by blast
qed

section \<open>What the result of the parser depends on\<close>

lemma parse_date_full_year_free:
  "js_match re_date_full s \<noteq> None \<Longrightarrow> parse_date s y = parse_date s y'"
  by (auto simp: parse_date_def split: option.splits)

lemma sample_has_full_date:
  "js_match re_date_full (prepared sample_subject) \<noteq> None"
  by (simp add: prepared_def sample_subject_def js_replace_def js_match_def trim_def re_defs)

text \<open>
  Claim C8, as amended.  The result of the parser is a function of the subject and of the
  year of the clock at the moment of the call; the received time is never used.  For a
  subject whose prepared text holds a date with its year, the result is a function of the
  subject alone: two calls give the same result whatever the received times and the years
  of the clock.
\<close>

theorem parse_depends_on_subject_and_clock:
  "parseJobDetailsFromSubject subject t y = parseJobDetailsFromSubject subject t' y \<and>
   (js_match re_date_full (prepared subject) \<noteq> None \<longrightarrow>
      parseJobDetailsFromSubject subject t y = parseJobDetailsFromSubject subject t' y')"
  using parse_date_full_year_free [of "prepared subject" y y']
  by (auto simp: parse_unfold)

theorem parse_depends_on_subject_and_clock_witness:
  "js_match re_date_full (prepared sample_subject) \<noteq> None \<and>
   parseJobDetailsFromSubject sample_subject 0 2025 =
     parseJobDetailsFromSubject sample_subject 1767222000000 2026"
  using parse_depends_on_subject_and_clock [of sample_subject 0 2025 1767222000000 2026]
    sample_has_full_date
  by blast

text \<open>The claim as stated fails for a subject without a year: the same subject and the
  same received time give two results when the clock has passed into the next year.\<close>

theorem parse_yearless_depends_on_clock:
  "parseJobDetailsFromSubject yearless_subject 0 2025 \<noteq>
   parseJobDetailsFromSubject yearless_subject 0 2026"
  by (simp add: parse_yearless dec.simps)

section \<open>Notifications\<close>

text \<open>
  Claim C9, as amended.  \<^verbatim>\<open>sendSuccessNotification\<close> and \<^verbatim>\<open>sendErrorNotification\<close>
  always return normally and hand at most one mail to the transporter; when
  \<^verbatim>\<open>sendMail\<close> rejects, the failure is logged.  \<^verbatim>\<open>sendTestEmail\<close> also tries at most
  once, but it throws: the error of \<^verbatim>\<open>sendMail\<close> when the sending fails, and an error of
  its own when there is no transporter.
\<close>

theorem notifications_fire_and_log:
  "outcome (sendSuccessNotification transporter jobs responseTime) = Inr () \<and>
   length (sent (sendSuccessNotification transporter jobs responseTime)) \<le> 1 \<and>
   outcome (sendErrorNotification transporter err jobs) = Inr () \<and>
   length (sent (sendErrorNotification transporter err jobs)) \<le> 1 \<and>
   length (sent (sendTestEmail transporter)) \<le> 1 \<and>
   (\<forall>sendMail e. transporter = Some sendMail \<longrightarrow>
      (sendMail (SuccessMail jobs responseTime) = Some e \<longrightarrow>
         logged (sendSuccessNotification transporter jobs responseTime) =
           [''Failed to send success notification:'']) \<and>
      (sendMail (ErrorMail err jobs) = Some e \<longrightarrow>
         logged (sendErrorNotification transporter err jobs) =
           [''Failed to send error notification:'']) \<and>
      (sendMail TestMail = Some e \<longrightarrow> outcome (sendTestEmail transporter) = Inl e)) \<and>
   (transporter = None \<longrightarrow>
      outcome (sendTestEmail transporter) = Inl (Error ''SMTP transporter not initialized''))"
  by (auto simp: sendSuccessNotification_def sendErrorNotification_def sendTestEmail_def
      split: option.splits)

theorem notifications_fire_and_log_witness:
  "outcome (sendSuccessNotification (Some refusing_sendMail) [''23.08.2025_15:00_58452''] 1200) = Inr () \<and>
   logged (sendSuccessNotification (Some refusing_sendMail) [''23.08.2025_15:00_58452''] 1200) =
     [''Failed to send success notification:''] \<and>
   outcome (sendTestEmail (Some refusing_sendMail)) = Inl (Error ''connect ECONNREFUSED'')"
  using notifications_fire_and_log [of "Some refusing_sendMail" "[''23.08.2025_15:00_58452'']" 1200]
  by (simp add: refusing_sendMail_def)

text \<open>The claim as stated fails for \<^verbatim>\<open>sendTestEmail\<close>: a rejected \<^verbatim>\<open>sendMail\<close> reaches
  the caller.\<close>

theorem sendTestEmail_throws:
  "outcome (sendTestEmail (Some refusing_sendMail)) \<noteq> Inr ()"
  by (simp add: sendTestEmail_def refusing_sendMail_def)

section \<open>Test ids in a batch\<close>

lemma processJobs_loop_successful_mono:
  "set (successful (fst acc)) \<subseteq> set (successful (fst (processJobs_loop f ids acc)))"
proof (induction ids arbitrary: acc)
  case Nil
  then show ?case by (cases acc) simp
next
  case (Cons a ids)
  obtain r w where acc: "acc = (r, w)" by (cases acc)
  show ?case
  proof (cases "a = ''TEST123'' \<or> prefix ''TEST'' a")
    case True
    then show ?thesis
      using Cons.IH [of "(r\<lparr>successful := successful r @ [a]\<rparr>, w)"] by (auto simp: acc)
  next
    case False
    obtain res w' where f: "f w a = (res, w')" by (cases "f w a")
    show ?thesis
    proof (cases res)
      case (Inl e)
      then show ?thesis
        using False f Cons.IH [of "(r\<lparr>failed := failed r @ [a]\<rparr>, w')"] by (auto simp: acc)
    next
      case (Inr ok)
      then show ?thesis
        using False f Cons.IH [of "(r\<lparr>successful := successful r @ [a]\<rparr>, w')"]
          Cons.IH [of "(r\<lparr>failed := failed r @ [a]\<rparr>, w')"] by (cases ok) (auto simp: acc)
    qed
  qed
qed

lemma processJobs_loop_test_recorded:
  "jobId \<in> set ids \<Longrightarrow> prefix ''TEST'' jobId \<Longrightarrow>
   jobId \<in> set (successful (fst (processJobs_loop f ids acc)))"
proof (induction ids arbitrary: acc)
  case Nil
  then show ?case by simp
next
  case (Cons a ids)
  obtain r w where acc: "acc = (r, w)" by (cases acc)
  show ?case
  proof (cases "jobId = a")
    case True
    have "jobId \<in> set (successful (fst (r\<lparr>successful := successful r @ [a]\<rparr>, w)))"
      using True by simp
    then have "jobId \<in> set (successful (fst (processJobs_loop f ids
                 (r\<lparr>successful := successful r @ [a]\<rparr>, w))))"
      using processJobs_loop_successful_mono by blast
    then show ?thesis using True Cons.prems(2) by (simp add: acc)
  next
    case False
    then have "jobId \<in> set ids" using Cons.prems(1) by simp
    then have "\<And>acc'. jobId \<in> set (successful (fst (processJobs_loop f ids acc')))"
      using Cons.IH Cons.prems(2) by blast
    then show ?thesis by (auto simp: acc split: prod.splits sum.splits)
  qed
qed

lemma processJobs_loop_skips_tests:
  "snd (processJobs_loop f ids acc) =
   fold (\<lambda>jobId w. snd (f w jobId)) (filter (\<lambda>jobId. \<not> prefix ''TEST'' jobId) ids) (snd acc)"
proof (induction ids arbitrary: acc)
  case Nil
  then show ?case by (cases acc) simp
next
  case (Cons a ids)
  obtain r w where acc: "acc = (r, w)" by (cases acc)
  have t: "a = ''TEST123'' \<Longrightarrow> prefix ''TEST'' a" by simp
  show ?case using Cons.IH t by (auto simp: acc split: prod.splits sum.splits)
qed

text \<open>
  Claim C10, as amended.  When the automator is ready and logged in, \<^verbatim>\<open>processJobs\<close>
  returns results in which every id of the batch that begins with \<^verbatim>\<open>TEST\<close> (so also
  \<^verbatim>\<open>TEST123\<close>) is listed as successful, and the browser ends in the state that applying
  to the other ids alone produces: no call of \<^verbatim>\<open>applyToJob\<close>, hence no navigation, lookup
  or submission, is made for a test id.  When the automator is not ready or not logged in,
  \<^verbatim>\<open>processJobs\<close> throws the error of its guard whatever the batch and whatever
  \<^verbatim>\<open>applyToJob\<close> would do: it throws before it looks at any id.
\<close>

theorem processJobs_test_ids:
  "(ready \<and> isLoggedIn \<longrightarrow>
      (\<exists>res w'. processJobs ready isLoggedIn applyToJob jobIds w = Inr (res, w') \<and>
         (\<forall>jobId\<in>set jobIds. prefix ''TEST'' jobId \<longrightarrow> jobId \<in> set (successful res)) \<and>
         w' = fold (\<lambda>jobId w. snd (applyToJob w jobId))
                (filter (\<lambda>jobId. \<not> prefix ''TEST'' jobId) jobIds) w)) \<and>
   (\<not> ready \<or> \<not> isLoggedIn \<longrightarrow>
      processJobs ready isLoggedIn applyToJob jobIds w =
        Inl (Error ''Automator not ready or not logged in''))"
proof (intro conjI impI)
  assume g: "ready \<and> isLoggedIn"
  obtain res w' where
    l: "processJobs_loop applyToJob jobIds (\<lparr>successful = [], failed = []\<rparr>, w) = (res, w')"
    by (cases "processJobs_loop applyToJob jobIds (\<lparr>successful = [], failed = []\<rparr>, w)")
  have a: "\<forall>jobId\<in>set jobIds. prefix ''TEST'' jobId \<longrightarrow> jobId \<in> set (successful res)"
    using processJobs_loop_test_recorded
            [of _ jobIds applyToJob "(\<lparr>successful = [], failed = []\<rparr>, w)"] l
    by auto
  have b: "w' = fold (\<lambda>jobId w. snd (applyToJob w jobId))
                  (filter (\<lambda>jobId. \<not> prefix ''TEST'' jobId) jobIds) w"
    using processJobs_loop_skips_tests
            [of applyToJob jobIds "(\<lparr>successful = [], failed = []\<rparr>, w)"] l
    by simp
  show "\<exists>res w'. processJobs ready isLoggedIn applyToJob jobIds w = Inr (res, w') \<and>
          (\<forall>jobId\<in>set jobIds. prefix ''TEST'' jobId \<longrightarrow> jobId \<in> set (successful res)) \<and>
          w' = fold (\<lambda>jobId w. snd (applyToJob w jobId))
                 (filter (\<lambda>jobId. \<not> prefix ''TEST'' jobId) jobIds) w"
    using g l a b by (simp add: processJobs_def)
next
  assume "\<not> ready \<or> \<not> isLoggedIn"
  then show "processJobs ready isLoggedIn applyToJob jobIds w =
               Inl (Error ''Automator not ready or not logged in'')"
    by (simp add: processJobs_def)
qed

theorem processJobs_test_ids_witness:
  "processJobs True True idle_applyToJob [''TEST123'', ''49768''] () =
     Inr (\<lparr>successful = [''TEST123''], failed = [''49768'']\<rparr>, ()) \<and>
   processJobs False True idle_applyToJob [''TEST123'', ''49768''] () =
     Inl (Error ''Automator not ready or not logged in'') \<and>
   processJobs True False idle_applyToJob [''TEST123'', ''49768''] () =
     Inl (Error ''Automator not ready or not logged in'')"
  using processJobs_test_ids [of True True idle_applyToJob "[''TEST123'', ''49768'']" "()"]
    processJobs_test_ids [of False True idle_applyToJob "[''TEST123'', ''49768'']" "()"]
    processJobs_test_ids [of True False idle_applyToJob "[''TEST123'', ''49768'']" "()"]
  by (simp add: processJobs_def idle_applyToJob_def)

text \<open>The claim as stated fails when the automator is not ready or not logged in:
  \<^verbatim>\<open>processJobs\<close> throws and lists no id.\<close>

theorem processJobs_not_ready_throws:
  "processJobs False True idle_applyToJob [''TEST123''] () =
     Inl (Error ''Automator not ready or not logged in'') \<and>
   processJobs True False idle_applyToJob [''TEST123''] () =
     Inl (Error ''Automator not ready or not logged in'')"
  by (simp add: processJobs_def)

end
